theory Spec2Isabelle
  imports Complex_Main
begin

section \<open>The detection debouncer of the elephant detection GUIs\<close>

text \<open>
  The development embeds \<^verbatim>\<open>update_detection_display\<close> of
  \<^verbatim>\<open>python_gui/simple_elephant_gui.py\<close> (lines 464-529), the code that sets its inputs
  (\<^verbatim>\<open>parse_classification\<close>, lines 422-436) and the periodic re-invocation of
  \<^verbatim>\<open>process_data_queue\<close> (lines 380-381), the copy of the update in
  \<^verbatim>\<open>advanced_elephant_gui.py\<close> (lines 654-723), and the indicator of
  \<^verbatim>\<open>noise_logger_gui.py\<close> (lines 970-1009).

  Conventions of the embedding:
  \<^item> \<^verbatim>\<open>time.time()\<close> is read once per call and is a parameter \<open>current_time\<close>; times are
    real numbers and \<^verbatim>\<open>elapsed = current_time - start\<close> is the real difference. The
    source computes it in binary64. Rounding is monotone and keeps 5.0, so a difference of
    at least the duration still passes \<^verbatim>\<open>elapsed >= duration\<close>; a difference below it
    can round up to it (5.1 - 0.1 gives 5.0). The two agree when the difference is exact,
    which it is when \<open>start \<le> current_time \<le> 2 * start\<close>; statements about the
    inside of the window carry that condition, in the form \<open>duration \<le> start \<le> now\<close>;
  \<^item> a confidence is a Python float, which \<^verbatim>\<open>float(...)\<close> also produces from the texts
    \<^verbatim>\<open>nan\<close> and \<^verbatim>\<open>inf\<close>: it is a finite real or one of the three special values;
  \<^item> a float literal is the binary64 value it denotes. 0.5 is exact. 0.3 denotes a value
    just below 3/10, with no binary64 value in between, so a float is above the literal
    exactly when it is above 3/10. 0.8 denotes a value above 8/10, which is itself the
    float read from the text \<^verbatim>\<open>0.8\<close>: the noise logger's floors 0.8 and 0.6 are the
    literals' own values;
  \<^item> the four strings held by \<^verbatim>\<open>last_detection_state\<close> and \<^verbatim>\<open>new_detection_state\<close> are
    the constructors of \<open>detection_state\<close>;
  \<^item> of the widgets only the text of \<^verbatim>\<open>detection_label\<close> is kept; colours, the bell, the
    log, and the classification, confidence and timer labels never feed back into the
    fields below and are left out.
\<close>

subsection \<open>Data\<close>

datatype pyfloat = Finite real | PosInf | NegInf | NaN

text \<open>Python's \<^verbatim>\<open>x > c\<close> for a float \<open>x\<close> and a finite literal \<open>c\<close>: false on NaN.\<close>

fun py_gt :: "pyfloat \<Rightarrow> real \<Rightarrow> bool" where
  "py_gt (Finite x) c = (x > c)"
| "py_gt PosInf c = True"
| "py_gt NegInf c = False"
| "py_gt NaN c = False"

text \<open>Python's \<^verbatim>\<open>x <= c\<close>, used only to state the spec's ranges: false on NaN as well.\<close>

fun py_le :: "pyfloat \<Rightarrow> real \<Rightarrow> bool" where
  "py_le (Finite x) c = (x \<le> c)"
| "py_le PosInf c = False"
| "py_le NegInf c = True"
| "py_le NaN c = False"

datatype detection_state = no_elephant | elephant_low | elephant_medium | elephant_high

text \<open>The texts shown by the detection label or indicator.\<close>

datatype indicator =
    Initializing
  | Elephant_Detected
  | Possible_Elephant
  | Elephant_Low_Confidence
  | No_Elephant

record gui_state =
  current_classification :: string
  current_confidence :: pyfloat
  detection_timer_start :: real
  detection_timer_duration :: real
  last_detection_state :: detection_state
  detection_locked :: bool
  detection_label :: indicator

text \<open>The fields as \<^verbatim>\<open>__init__\<close> and \<^verbatim>\<open>setup_ui\<close> leave them (lines 34-42, 128).\<close>

definition initial_state :: gui_state where
  "initial_state =
     \<lparr> current_classification = ''not_elephant'',
       current_confidence = Finite 0,
       detection_timer_start = 0,
       detection_timer_duration = 5,
       last_detection_state = no_elephant,
       detection_locked = False,
       detection_label = Initializing \<rparr>"

subsection \<open>The tier mapping\<close>

text \<open>\<^verbatim>\<open>simple_elephant_gui.py\<close>, lines 468-477: the value of the local \<^verbatim>\<open>new_detection_state\<close>.\<close>

definition new_detection_state :: "string \<Rightarrow> pyfloat \<Rightarrow> detection_state" where
  "new_detection_state classification confidence =
     (if classification = ''elephant'' then
        (if py_gt confidence (5 / 10) then elephant_high
         else if py_gt confidence (3 / 10) then elephant_medium
         else elephant_low)
      else no_elephant)"

text \<open>\<^verbatim>\<open>advanced_elephant_gui.py\<close>, lines 658-667.\<close>

definition new_detection_state_advanced :: "string \<Rightarrow> pyfloat \<Rightarrow> detection_state" where
  "new_detection_state_advanced classification confidence =
     (if classification = ''elephant'' then
        (if py_gt confidence (5 / 10) then elephant_high
         else if py_gt confidence (3 / 10) then elephant_medium
         else elephant_low)
      else no_elephant)"

text \<open>The binary64 values of the literals \<^verbatim>\<open>0.8\<close> and \<^verbatim>\<open>0.6\<close>.\<close>

definition double_0_8 :: real where
  "double_0_8 = 3602879701896397 / 4503599627370496"

definition double_0_6 :: real where
  "double_0_6 = 5404319552844595 / 9007199254740992"

text \<open>
  \<^verbatim>\<open>noise_logger_gui.py\<close>, lines 970-1009, \<^verbatim>\<open>update_detection_indicator\<close>: the indicator
  widget is \<open>None\<close> until the interface is built, and then the call returns at once;
  otherwise its text is set from the classification and the confidence.
\<close>

definition update_detection_indicator ::
  "string \<Rightarrow> pyfloat \<Rightarrow> indicator option \<Rightarrow> indicator option" where
  "update_detection_indicator classification confidence detection_indicator =
     (case detection_indicator of
        None \<Rightarrow> None
      | Some _ \<Rightarrow>
          (if classification = ''elephant'' \<and> py_gt confidence double_0_8 then
             Some Elephant_Detected
           else if classification = ''elephant'' \<and> py_gt confidence double_0_6 then
             Some Possible_Elephant
           else if classification = ''elephant'' then Some Elephant_Low_Confidence
           else Some No_Elephant))"

text \<open>
  The text that \<^verbatim>\<open>update_detection_display\<close> puts on the label for each tier
  (lines 487-496 and 505), used to read the noise logger's indicator as a tier.
\<close>

fun label_of :: "detection_state \<Rightarrow> indicator" where
  "label_of elephant_high = Elephant_Detected"
| "label_of elephant_medium = Possible_Elephant"
| "label_of elephant_low = Elephant_Low_Confidence"
| "label_of no_elephant = No_Elephant"

subsection \<open>The debounce update\<close>

text \<open>\<^verbatim>\<open>update_detection_display\<close>, lines 464-529, branch by branch in the source's order.\<close>

definition update_detection_display :: "real \<Rightarrow> gui_state \<Rightarrow> gui_state" where
  "update_detection_display current_time s =
     (let new_state = new_detection_state (current_classification s) (current_confidence s) in
      if new_state \<noteq> no_elephant \<and>
         (\<not> detection_locked s \<or> new_state \<noteq> last_detection_state s) then
        s\<lparr> detection_timer_start := current_time,
           detection_locked := True,
           last_detection_state := new_state,
           detection_label :=
             (if new_state = elephant_high then Elephant_Detected
              else if new_state = elephant_medium then Possible_Elephant
              else Elephant_Low_Confidence) \<rparr>
      else if detection_locked s then
        (let elapsed = current_time - detection_timer_start s in
         if elapsed \<ge> detection_timer_duration s then
           (if new_state = no_elephant then
              s\<lparr> detection_locked := False,
                 detection_label := No_Elephant,
                 last_detection_state := no_elephant \<rparr>
            else
              s\<lparr> detection_timer_start := current_time,
                 detection_locked := True,
                 last_detection_state := new_state \<rparr>)
         else s)
      else if \<not> detection_locked s \<and> new_state = no_elephant then
        s\<lparr> detection_label := No_Elephant, last_detection_state := no_elephant \<rparr>
      else s)"

text \<open>
  The spec's view of the state: the tier is \<^verbatim>\<open>last_detection_state\<close>, the episode starts
  at \<^verbatim>\<open>detection_timer_start\<close>, and the lock runs until the start plus
  \<^verbatim>\<open>detection_timer_duration\<close> (the source tests \<^verbatim>\<open>current_time - start >= duration\<close>).
\<close>

definition tier :: "gui_state \<Rightarrow> detection_state" where
  "tier s = last_detection_state s"

definition active_since :: "gui_state \<Rightarrow> real" where
  "active_since s = detection_timer_start s"

definition locked_until :: "gui_state \<Rightarrow> real" where
  "locked_until s = detection_timer_start s + detection_timer_duration s"

text \<open>
  \<^verbatim>\<open>observe(label, confidence, now)\<close>: \<^verbatim>\<open>parse_classification\<close> stores the two values
  and calls the update (lines 429-432). The source returns nothing; \<open>transitioned\<close> is
  read off the state: the tier after the call differs from the tier before it.
\<close>

definition observe :: "string \<Rightarrow> pyfloat \<Rightarrow> real \<Rightarrow> gui_state \<Rightarrow> gui_state \<times> bool" where
  "observe label confidence now s =
     (let s' = update_detection_display now
                 (s\<lparr> current_classification := label, current_confidence := confidence \<rparr>)
      in (s', last_detection_state s' \<noteq> last_detection_state s))"

text \<open>
  \<^verbatim>\<open>parse_classification\<close>, lines 422-436, with its exceptions as values. The text after
  the 15 characters of the prefix is split at the commas; with fewer than two parts
  nothing is stored. Otherwise the label is stored first, and \<^verbatim>\<open>float(...)\<close> then either
  raises \<^verbatim>\<open>ValueError\<close>, which leaves the \<^verbatim>\<open>try\<close> block with the label stored and the
  update skipped, or gives the confidence, which is stored before the update runs. The
  handler \<^verbatim>\<open>except Exception\<close> logs the error and returns. Python's \<^verbatim>\<open>str.strip\<close> and
  \<^verbatim>\<open>float\<close> are parameters; the logging calls are left out.
\<close>

datatype py_error = ValueError

text \<open>Python's \<^verbatim>\<open>text.split(",")\<close>: never an empty list.\<close>

fun split_comma :: "string \<Rightarrow> string list" where
  "split_comma [] = [[]]"
| "split_comma (c # cs) =
     (if c = CHR '','' then [] # split_comma cs
      else (case split_comma cs of
              [] \<Rightarrow> [[c]]
            | p # ps \<Rightarrow> (c # p) # ps))"

text \<open>The body of the \<^verbatim>\<open>try\<close> block: an exception comes with the state as mutated so far.\<close>

definition parse_classification_try ::
  "(string \<Rightarrow> string) \<Rightarrow> (string \<Rightarrow> py_error + pyfloat) \<Rightarrow> string \<Rightarrow> real \<Rightarrow> gui_state
     \<Rightarrow> (py_error \<times> gui_state) + gui_state" where
  "parse_classification_try py_strip py_float line current_time s =
     (let parts = split_comma (drop 15 line) in
      if length parts \<ge> 2 then
        (let s1 = s\<lparr> current_classification := py_strip (parts ! 0) \<rparr> in
         case py_float (py_strip (parts ! 1)) of
           Inl e \<Rightarrow> Inl (e, s1)
         | Inr confidence \<Rightarrow>
             Inr (update_detection_display current_time
                    (s1\<lparr> current_confidence := confidence \<rparr>)))
      else Inr s)"

definition parse_classification ::
  "(string \<Rightarrow> string) \<Rightarrow> (string \<Rightarrow> py_error + pyfloat) \<Rightarrow> string \<Rightarrow> real \<Rightarrow> gui_state
     \<Rightarrow> py_error + gui_state" where
  "parse_classification py_strip py_float line current_time s =
     (case parse_classification_try py_strip py_float line current_time s of
        Inl (e, s') \<Rightarrow> Inr s'
      | Inr s' \<Rightarrow> Inr s')"

text \<open>
  A stand-in for \<^verbatim>\<open>float\<close> on the texts of the examples: it reads \<^verbatim>\<open>0.85\<close> and
  \<^verbatim>\<open>nan\<close> and raises on every other text.
\<close>

definition float_of_example :: "string \<Rightarrow> py_error + pyfloat" where
  "float_of_example text =
     (if text = ''0.85'' then Inr (Finite (85 / 100))
      else if text = ''nan'' then Inr NaN
      else Inl ValueError)"

text \<open>
  \<^verbatim>\<open>process_data_queue\<close>, lines 380-381: every 50 ms the update runs again on the stored
  classification, when the lock is set.
\<close>

definition tick :: "real \<Rightarrow> gui_state \<Rightarrow> gui_state" where
  "tick now s = (if detection_locked s then update_detection_display now s else s)"

datatype event = Classification string pyfloat | Tick

fun step :: "event \<Rightarrow> real \<Rightarrow> gui_state \<Rightarrow> gui_state" where
  "step (Classification label confidence) now s = fst (observe label confidence now s)"
| "step Tick now s = tick now s"

text \<open>A session: the events, each with the time at which it is handled, in order.\<close>

fun run :: "(event \<times> real) list \<Rightarrow> gui_state \<Rightarrow> gui_state" where
  "run [] s = s"
| "run ((e, now) # evs) s = run evs (step e now s)"

text \<open>A sequence of observations, with the \<open>transitioned\<close> flag of each call.\<close>

fun observe_seq :: "(string \<times> pyfloat \<times> real) list \<Rightarrow> gui_state \<Rightarrow> gui_state \<times> bool list" where
  "observe_seq [] s = (s, [])"
| "observe_seq ((label, confidence, now) # obs) s =
     (let (s1, tr) = observe label confidence now s;
          (s2, trs) = observe_seq obs s1
      in (s2, tr # trs))"

text \<open>The lock flag and the displayed tier agree.\<close>

definition tier_consistent :: "gui_state \<Rightarrow> bool" where
  "tier_consistent s = (detection_locked s = (last_detection_state s \<noteq> no_elephant))"

text \<open>The states of a session: the starting one and the one after each event.\<close>

fun trace :: "(event \<times> real) list \<Rightarrow> gui_state \<Rightarrow> gui_state list" where
  "trace [] s = [s]"
| "trace ((e, now) # evs) s = s # trace evs (step e now s)"

text \<open>
  While a tier is displayed, its episode started no later than \<open>T\<close> (the time of the
  latest event handled).
\<close>

definition started_by :: "real \<Rightarrow> gui_state \<Rightarrow> bool" where
  "started_by T s = (last_detection_state s = no_elephant \<or> detection_timer_start s \<le> T)"

text \<open>
  The state of the spec's test scenarios: the one reached by
  \<^verbatim>\<open>observe("positive", 0.85, t0)\<close>, the positive class being the string \<^verbatim>\<open>elephant\<close>.
\<close>

definition spec_high :: "real \<Rightarrow> gui_state \<Rightarrow> gui_state" where
  "spec_high t0 s = fst (observe ''elephant'' (Finite (85 / 100)) t0 s)"

subsection \<open>The advanced GUI\<close>

text \<open>
  \<^verbatim>\<open>advanced_elephant_gui.py\<close> keeps the same fields (lines 41-42, 70-73) and a counter
  \<^verbatim>\<open>stats['elephant_detections']\<close>; its \<^verbatim>\<open>update_detection_display\<close> (lines 654-723) is
  the same chain of branches and adds one to the counter where the bell rings.
\<close>

record advanced_gui_state = gui_state +
  elephant_detections :: nat

definition update_detection_display_advanced ::
  "real \<Rightarrow> advanced_gui_state \<Rightarrow> advanced_gui_state" where
  "update_detection_display_advanced current_time s =
     (let new_state =
            new_detection_state_advanced (current_classification s) (current_confidence s) in
      if new_state \<noteq> no_elephant \<and>
         (\<not> detection_locked s \<or> new_state \<noteq> last_detection_state s) then
        (let s1 = s\<lparr> detection_timer_start := current_time,
                      detection_locked := True,
                      last_detection_state := new_state \<rparr> in
         if new_state = elephant_high then
           s1\<lparr> detection_label := Elephant_Detected,
               elephant_detections := elephant_detections s1 + 1 \<rparr>
         else if new_state = elephant_medium then s1\<lparr> detection_label := Possible_Elephant \<rparr>
         else s1\<lparr> detection_label := Elephant_Low_Confidence \<rparr>)
      else if detection_locked s then
        (let elapsed = current_time - detection_timer_start s in
         if elapsed \<ge> detection_timer_duration s then
           (if new_state = no_elephant then
              s\<lparr> detection_locked := False,
                 detection_label := No_Elephant,
                 last_detection_state := no_elephant \<rparr>
            else
              s\<lparr> detection_timer_start := current_time,
                 detection_locked := True,
                 last_detection_state := new_state \<rparr>)
         else s)
      else if \<not> detection_locked s \<and> new_state = no_elephant then
        s\<lparr> detection_label := No_Elephant, last_detection_state := no_elephant \<rparr>
      else s)"

text \<open>\<^verbatim>\<open>parse_classification\<close> of the advanced GUI, lines 621-624.\<close>

definition observe_advanced ::
  "string \<Rightarrow> pyfloat \<Rightarrow> real \<Rightarrow> advanced_gui_state \<Rightarrow> advanced_gui_state \<times> bool" where
  "observe_advanced label confidence now s =
     (let s' = update_detection_display_advanced now
                 (s\<lparr> current_classification := label, current_confidence := confidence \<rparr>)
      in (s', last_detection_state s' \<noteq> last_detection_state s))"

text \<open>The fields the advanced GUI shares with the simple one.\<close>

definition shared :: "advanced_gui_state \<Rightarrow> gui_state" where
  "shared a = gui_state.truncate a"

text \<open>The fields as the advanced GUI's \<^verbatim>\<open>__init__\<close> and \<^verbatim>\<open>setup_ui\<close> leave them
  (lines 41-42, 54-59, 70-73, 157).\<close>

definition initial_state_advanced :: advanced_gui_state where
  "initial_state_advanced =
     \<lparr> current_classification = ''not_elephant'',
       current_confidence = Finite 0,
       detection_timer_start = 0,
       detection_timer_duration = 5,
       last_detection_state = no_elephant,
       detection_locked = False,
       detection_label = Initializing,
       elephant_detections = 0 \<rparr>"

definition spec_high_advanced :: "real \<Rightarrow> advanced_gui_state \<Rightarrow> advanced_gui_state" where
  "spec_high_advanced t0 a = fst (observe_advanced ''elephant'' (Finite (85 / 100)) t0 a)"

section \<open>Properties\<close>

subsection \<open>Auxiliary facts\<close>

lemmas observe_defs =
  observe_def update_detection_display_def tier_def active_since_def locked_until_def
  tier_consistent_def

text \<open>
  The advanced GUI's update is the simple one on the shared fields, so what is proved
  of \<open>observe\<close> below holds of \<open>observe_advanced\<close> on those fields.
\<close>

lemma advanced_mapping_same:
  "new_detection_state_advanced classification confidence =
   new_detection_state classification confidence"
  by (simp add: new_detection_state_advanced_def new_detection_state_def)

lemma update_advanced_simulates:
  "gui_state.truncate (update_detection_display_advanced now a) =
   update_detection_display now (gui_state.truncate a)"
  by (simp add: update_detection_display_advanced_def update_detection_display_def
      advanced_mapping_same gui_state.truncate_def Let_def)

lemma observe_advanced_simulates:
  "gui_state.truncate (fst (observe_advanced label confidence now a)) =
     fst (observe label confidence now (gui_state.truncate a)) \<and>
   snd (observe_advanced label confidence now a) =
     snd (observe label confidence now (gui_state.truncate a))"
  by (simp add: observe_advanced_def observe_def update_detection_display_advanced_def
      update_detection_display_def advanced_mapping_same gui_state.truncate_def Let_def)

lemma py_le_not_gt: "py_le c x \<Longrightarrow> \<not> py_gt c x"
  by (cases c) simp_all

lemma negative_label: "label \<noteq> ''elephant'' \<Longrightarrow> new_detection_state label c = no_elephant"
  by (simp add: new_detection_state_def)

lemma spec_high_state:
  "tier s0 = no_elephant \<Longrightarrow>
   last_detection_state (spec_high t0 s0) = elephant_high \<and>
   detection_locked (spec_high t0 s0) \<and>
   detection_timer_start (spec_high t0 s0) = t0 \<and>
   detection_timer_duration (spec_high t0 s0) = detection_timer_duration s0"
  by (simp add: spec_high_def observe_defs new_detection_state_def Let_def)

lemma spec_high_initial:
  "last_detection_state (spec_high 100 initial_state) = elephant_high \<and>
   detection_locked (spec_high 100 initial_state) \<and>
   detection_timer_start (spec_high 100 initial_state) = 100 \<and>
   detection_timer_duration (spec_high 100 initial_state) = 5"
  using spec_high_state [of initial_state 100] by (simp add: tier_def initial_state_def)

lemma shared_fields:
  "tier (shared a) = last_detection_state a"
  "active_since (shared a) = detection_timer_start a"
  "locked_until (shared a) = detection_timer_start a + detection_timer_duration a"
  "tier_consistent (shared a) = (detection_locked a = (last_detection_state a \<noteq> no_elephant))"
  "detection_timer_duration (shared a) = detection_timer_duration a"
  "detection_timer_start (shared a) = detection_timer_start a"
  "last_detection_state (shared a) = last_detection_state a"
  "detection_locked (shared a) = detection_locked a"
  "detection_label (shared a) = detection_label a"
  by (simp_all add: shared_def gui_state.truncate_def observe_defs)

lemmas observe_advanced_defs =
  observe_advanced_def update_detection_display_advanced_def advanced_mapping_same shared_fields

lemma spec_high_advanced_initial:
  "last_detection_state (spec_high_advanced 100 initial_state_advanced) = elephant_high \<and>
   detection_locked (spec_high_advanced 100 initial_state_advanced) \<and>
   detection_timer_start (spec_high_advanced 100 initial_state_advanced) = 100 \<and>
   detection_timer_duration (spec_high_advanced 100 initial_state_advanced) = 5 \<and>
   elephant_detections (spec_high_advanced 100 initial_state_advanced) = 1"
  by (simp add: spec_high_advanced_def observe_advanced_defs new_detection_state_def
      initial_state_advanced_def Let_def)

lemma parse_cases:
  "parse_classification py_strip py_float line now s =
     (if 2 \<le> length (split_comma (drop 15 line)) then
        (case py_float (py_strip (split_comma (drop 15 line) ! 1)) of
           Inl e \<Rightarrow> Inr (s\<lparr> current_classification := py_strip (split_comma (drop 15 line) ! 0) \<rparr>)
         | Inr confidence \<Rightarrow>
             Inr (fst (observe (py_strip (split_comma (drop 15 line) ! 0)) confidence now s)))
      else Inr s)"
  by (simp add: parse_classification_def parse_classification_try_def observe_def Let_def
      split: sum.splits)

lemma observe_elephant_locks:
  "last_detection_state (fst (observe ''elephant'' confidence now s))
     = new_detection_state ''elephant'' confidence \<and>
   detection_locked (fst (observe ''elephant'' confidence now s))"
  by (cases confidence)
    (auto simp: observe_def update_detection_display_def new_detection_state_def Let_def)

lemma split_examples:
  "split_comma (drop 15 ''CLASSIFICATION:elephant,abc'') = [''elephant'', ''abc'']"
  "split_comma (drop 15 ''CLASSIFICATION:elephant,0.85,high_confidence'')
     = [''elephant'', ''0.85'', ''high_confidence'']"
  "split_comma (drop 15 ''CLASSIFICATION:elephant'') = [''elephant'']"
  "split_comma (drop 15 ''CLASSIFICATION:elephant,nan'') = [''elephant'', ''nan'']"
  by simp_all

subsection \<open>The tier mapping (claims C6 and C10)\<close>

text \<open>
  Claim C6 as stated fails: the mapping is not the same in every GUI variant. The noise
  logger shows a positive observation of confidence 0.7, which is above 0.5, with the text
  of the medium tier and not with the one of the high tier.
\<close>

theorem tier_mapping_counterexample:
  "py_gt (Finite (7 / 10)) (5 / 10) \<and>
   update_detection_indicator ''elephant'' (Finite (7 / 10)) (Some Initializing)
     = Some (label_of elephant_medium) \<and>
   update_detection_indicator ''elephant'' (Finite (7 / 10)) (Some Initializing)
     \<noteq> Some (label_of elephant_high)"
  by (simp add: update_detection_indicator_def double_0_8_def double_0_6_def)

text \<open>
  Claim C6, amended: in the simple and in the advanced GUI the candidate tier is HIGH when
  the label is \<^verbatim>\<open>elephant\<close> and the confidence is above 0.5, MEDIUM when it is above 0.3
  and at most 0.5, LOW when it is at most 0.3, and NONE for every other label whatever the
  confidence; the noise logger's indicator follows the same shape with the floors 0.8 and
  0.6, as binary64 values, in place of 0.5 and 0.3. The float read from the text
  \<^verbatim>\<open>0.8\<close> is that floor, is not above it, and is shown as a possible elephant.
\<close>

theorem tier_mapping:
  "(classification = ''elephant'' \<and> py_gt confidence (5 / 10) \<longrightarrow>
      new_detection_state classification confidence = elephant_high) \<and>
   (classification = ''elephant'' \<and> py_gt confidence (3 / 10) \<and> py_le confidence (5 / 10) \<longrightarrow>
      new_detection_state classification confidence = elephant_medium) \<and>
   (classification = ''elephant'' \<and> py_le confidence (3 / 10) \<longrightarrow>
      new_detection_state classification confidence = elephant_low) \<and>
   (classification \<noteq> ''elephant'' \<longrightarrow>
      new_detection_state classification confidence = no_elephant) \<and>
   new_detection_state_advanced classification confidence =
      new_detection_state classification confidence \<and>
   update_detection_indicator classification confidence (Some shown) =
      Some (label_of
        (if classification = ''elephant'' then
           (if py_gt confidence double_0_8 then elephant_high
            else if py_gt confidence double_0_6 then elephant_medium
            else elephant_low)
         else no_elephant)) \<and>
   8 / 10 < double_0_8 \<and>
   update_detection_indicator ''elephant'' (Finite double_0_8) (Some shown) =
      Some Possible_Elephant"
proof -
  have a: "(classification = ''elephant'' \<and> py_gt confidence (5 / 10) \<longrightarrow>
      new_detection_state classification confidence = elephant_high) \<and>
   (classification = ''elephant'' \<and> py_gt confidence (3 / 10) \<and> py_le confidence (5 / 10) \<longrightarrow>
      new_detection_state classification confidence = elephant_medium) \<and>
   (classification = ''elephant'' \<and> py_le confidence (3 / 10) \<longrightarrow>
      new_detection_state classification confidence = elephant_low) \<and>
   (classification \<noteq> ''elephant'' \<longrightarrow>
      new_detection_state classification confidence = no_elephant) \<and>
   new_detection_state_advanced classification confidence =
      new_detection_state classification confidence"
    by (cases confidence)
      (auto simp: new_detection_state_def new_detection_state_advanced_def)
  have b: "update_detection_indicator classification confidence (Some shown) =
      Some (label_of
        (if classification = ''elephant'' then
           (if py_gt confidence double_0_8 then elephant_high
            else if py_gt confidence double_0_6 then elephant_medium
            else elephant_low)
         else no_elephant))"
    by (simp add: update_detection_indicator_def)
  have c: "8 / 10 < double_0_8" by (simp add: double_0_8_def)
  have d: "update_detection_indicator ''elephant'' (Finite double_0_8) (Some shown) =
      Some Possible_Elephant"
    by (simp add: update_detection_indicator_def double_0_8_def double_0_6_def)
  from a b c d show ?thesis by blast
qed

text \<open>The four rows of the mapping at the confidences of the repository's test scenarios.\<close>

theorem tier_mapping_witness:
  "new_detection_state ''elephant'' (Finite (85 / 100)) = elephant_high \<and>
   new_detection_state ''elephant'' (Finite (35 / 100)) = elephant_medium \<and>
   new_detection_state ''elephant'' (Finite (1 / 10)) = elephant_low \<and>
   new_detection_state ''not_elephant'' (Finite (85 / 100)) = no_elephant"
  using tier_mapping [of "''elephant''" "Finite (85 / 100)"]
    tier_mapping [of "''elephant''" "Finite (35 / 100)"]
    tier_mapping [of "''elephant''" "Finite (1 / 10)"]
    tier_mapping [of "''not_elephant''" "Finite (85 / 100)"]
  by simp

text \<open>
  Claim C10: a label \<^verbatim>\<open>elephant\<close> never maps to NONE, whatever the confidence, in the
  simple and in the advanced GUI. A confidence of -1, any confidence of at most 0.3, and
  NaN map to LOW; in both GUIs the observation then leaves the debouncer locked on LOW,
  with a lock of a full dwell from now, unless a LOW episode was already running inside
  its window, which continues unchanged.
\<close>

theorem low_tier_on_any_confidence:
  "new_detection_state ''elephant'' confidence \<noteq> no_elephant \<and>
   new_detection_state_advanced ''elephant'' confidence \<noteq> no_elephant \<and>
   new_detection_state ''elephant'' (Finite (- 1)) = elephant_low \<and>
   new_detection_state_advanced ''elephant'' (Finite (- 1)) = elephant_low \<and>
   (py_le confidence (3 / 10) \<or> confidence = NaN \<longrightarrow>
      new_detection_state ''elephant'' confidence = elephant_low \<and>
      new_detection_state_advanced ''elephant'' confidence = elephant_low \<and>
      tier (fst (observe ''elephant'' confidence now s)) = elephant_low \<and>
      detection_locked (fst (observe ''elephant'' confidence now s)) \<and>
      (locked_until (fst (observe ''elephant'' confidence now s)) =
         now + detection_timer_duration s \<or>
       detection_locked s \<and> tier s = elephant_low \<and> now < locked_until s \<and>
       locked_until (fst (observe ''elephant'' confidence now s)) = locked_until s) \<and>
      tier (shared (fst (observe_advanced ''elephant'' confidence now a))) = elephant_low \<and>
      detection_locked (fst (observe_advanced ''elephant'' confidence now a)) \<and>
      (locked_until (shared (fst (observe_advanced ''elephant'' confidence now a))) =
         now + detection_timer_duration a \<or>
       detection_locked a \<and> tier (shared a) = elephant_low \<and> now < locked_until (shared a) \<and>
       locked_until (shared (fst (observe_advanced ''elephant'' confidence now a)))
         = locked_until (shared a)))"
  by (cases confidence)
    (auto simp: new_detection_state_def new_detection_state_advanced_def observe_defs
       observe_advanced_def update_detection_display_advanced_def shared_fields Let_def)

text \<open>From either initial state, a confidence of -1 at time 100 locks LOW until 105.\<close>

theorem low_tier_on_any_confidence_witness:
  "py_le (Finite (- 1)) (3 / 10) \<and>
   tier (fst (observe ''elephant'' (Finite (- 1)) 100 initial_state)) = elephant_low \<and>
   detection_locked (fst (observe ''elephant'' (Finite (- 1)) 100 initial_state)) \<and>
   locked_until (fst (observe ''elephant'' (Finite (- 1)) 100 initial_state)) = 105 \<and>
   tier (shared (fst (observe_advanced ''elephant'' (Finite (- 1)) 100 initial_state_advanced)))
     = elephant_low \<and>
   detection_locked (fst (observe_advanced ''elephant'' (Finite (- 1)) 100
     initial_state_advanced)) \<and>
   locked_until (shared (fst (observe_advanced ''elephant'' (Finite (- 1)) 100
     initial_state_advanced))) = 105"
proof -
  have h: "py_le (Finite (- 1)) (3 / 10)" by simp
  have d: "detection_timer_duration initial_state = 5"
    and l: "\<not> detection_locked initial_state"
    and da: "detection_timer_duration initial_state_advanced = 5"
    and la: "\<not> detection_locked initial_state_advanced"
    by (simp_all add: initial_state_def initial_state_advanced_def)
  show ?thesis
    using h d l da la
      low_tier_on_any_confidence [of "Finite (- 1)" 100 initial_state initial_state_advanced]
    by simp
qed

subsection \<open>No exception (claim C8)\<close>

text \<open>
  Claim C8: an observation completes without raising, whatever the label and the
  confidence. On the wire, a malformed confidence makes \<^verbatim>\<open>float\<close> raise
  \<^verbatim>\<open>ValueError\<close> inside \<^verbatim>\<open>parse_classification\<close>; the handler catches it, so the call
  returns with the label stored and the update skipped, and no exception leaves the
  call for any line, any \<^verbatim>\<open>strip\<close> and any \<^verbatim>\<open>float\<close>. A confidence that is a float
  reaches \<open>observe\<close>, which has no raising statement and no fallible operation: each
  input is handled by one of the branches, and the values outside \<open>[0, 1]\<close>, the
  infinities and NaN are compared like any other, so that with the label
  \<^verbatim>\<open>elephant\<close> NaN, minus infinity and -1 lock LOW and plus infinity and 2 lock HIGH.
\<close>

theorem observe_never_raises:
  "(\<exists>s'. parse_classification py_strip py_float line now s = Inr s') \<and>
   (2 \<le> length (split_comma (drop 15 line)) \<and>
    py_float (py_strip (split_comma (drop 15 line) ! 1)) = Inr confidence \<longrightarrow>
      parse_classification py_strip py_float line now s =
        Inr (fst (observe (py_strip (split_comma (drop 15 line) ! 0)) confidence now s))) \<and>
   (2 \<le> length (split_comma (drop 15 line)) \<and>
    py_float (py_strip (split_comma (drop 15 line) ! 1)) = Inl e \<longrightarrow>
      parse_classification py_strip py_float line now s =
        Inr (s\<lparr> current_classification := py_strip (split_comma (drop 15 line) ! 0) \<rparr>)) \<and>
   (length (split_comma (drop 15 line)) < 2 \<longrightarrow>
      parse_classification py_strip py_float line now s = Inr s) \<and>
   (\<exists>s' tr. observe label confidence now s = (s', tr) \<and>
      tr = (tier s' \<noteq> tier s) \<and>
      tier s' \<in> {tier s, new_detection_state label confidence} \<and>
      active_since s' \<in> {active_since s, now} \<and>
      detection_timer_duration s' = detection_timer_duration s \<and>
      current_classification s' = label \<and>
      current_confidence s' = confidence) \<and>
   tier (fst (observe ''elephant'' NaN now s)) = elephant_low \<and>
   detection_locked (fst (observe ''elephant'' NaN now s)) \<and>
   tier (fst (observe ''elephant'' NegInf now s)) = elephant_low \<and>
   detection_locked (fst (observe ''elephant'' NegInf now s)) \<and>
   tier (fst (observe ''elephant'' PosInf now s)) = elephant_high \<and>
   detection_locked (fst (observe ''elephant'' PosInf now s)) \<and>
   tier (fst (observe ''elephant'' (Finite 2) now s)) = elephant_high \<and>
   detection_locked (fst (observe ''elephant'' (Finite 2) now s)) \<and>
   tier (fst (observe ''elephant'' (Finite (- 1)) now s)) = elephant_low \<and>
   detection_locked (fst (observe ''elephant'' (Finite (- 1)) now s))"
proof -
  have p: "(\<exists>s'. parse_classification py_strip py_float line now s = Inr s') \<and>
   (2 \<le> length (split_comma (drop 15 line)) \<and>
    py_float (py_strip (split_comma (drop 15 line) ! 1)) = Inr confidence \<longrightarrow>
      parse_classification py_strip py_float line now s =
        Inr (fst (observe (py_strip (split_comma (drop 15 line) ! 0)) confidence now s))) \<and>
   (2 \<le> length (split_comma (drop 15 line)) \<and>
    py_float (py_strip (split_comma (drop 15 line) ! 1)) = Inl e \<longrightarrow>
      parse_classification py_strip py_float line now s =
        Inr (s\<lparr> current_classification := py_strip (split_comma (drop 15 line) ! 0) \<rparr>)) \<and>
   (length (split_comma (drop 15 line)) < 2 \<longrightarrow>
      parse_classification py_strip py_float line now s = Inr s)"
    by (auto simp: parse_cases split: sum.splits)
  have o: "\<exists>s' tr. observe label confidence now s = (s', tr) \<and>
      tr = (tier s' \<noteq> tier s) \<and>
      tier s' \<in> {tier s, new_detection_state label confidence} \<and>
      active_since s' \<in> {active_since s, now} \<and>
      detection_timer_duration s' = detection_timer_duration s \<and>
      current_classification s' = label \<and>
      current_confidence s' = confidence"
    by (simp add: observe_defs Let_def)
  have v: "new_detection_state ''elephant'' NaN = elephant_low"
    "new_detection_state ''elephant'' NegInf = elephant_low"
    "new_detection_state ''elephant'' PosInf = elephant_high"
    "new_detection_state ''elephant'' (Finite 2) = elephant_high"
    "new_detection_state ''elephant'' (Finite (- 1)) = elephant_low"
    by (simp_all add: new_detection_state_def)
  from p o v observe_elephant_locks [of NaN now s] observe_elephant_locks [of NegInf now s]
    observe_elephant_locks [of PosInf now s] observe_elephant_locks [of "Finite 2" now s]
    observe_elephant_locks [of "Finite (- 1)" now s]
  show ?thesis by (simp add: tier_def)
qed

text \<open>
  A line with a malformed confidence stores the label and skips the update; a well-formed
  line is the observation; a line without a comma changes nothing; the text \<^verbatim>\<open>nan\<close> is
  read as a float and gives LOW.
\<close>

theorem observe_never_raises_witness:
  "parse_classification id float_of_example ''CLASSIFICATION:elephant,abc'' 100 initial_state
     = Inr (initial_state\<lparr> current_classification := ''elephant'' \<rparr>) \<and>
   parse_classification id float_of_example ''CLASSIFICATION:elephant,0.85,high_confidence''
       100 initial_state
     = Inr (spec_high 100 initial_state) \<and>
   parse_classification id float_of_example ''CLASSIFICATION:elephant'' 100 initial_state
     = Inr initial_state \<and>
   parse_classification id float_of_example ''CLASSIFICATION:elephant,nan'' 100 initial_state
     = Inr (fst (observe ''elephant'' NaN 100 initial_state)) \<and>
   tier (fst (observe ''elephant'' NaN 100 initial_state)) = elephant_low"
proof -
  have f: "float_of_example ''abc'' = Inl ValueError"
    "float_of_example ''0.85'' = Inr (Finite (85 / 100))"
    "float_of_example ''nan'' = Inr NaN"
    by (simp_all add: float_of_example_def)
  show ?thesis
    using f
      observe_never_raises [where py_strip = id and py_float = float_of_example
        and line = "''CLASSIFICATION:elephant,abc''" and now = 100 and s = initial_state
        and e = ValueError]
      observe_never_raises [where py_strip = id and py_float = float_of_example
        and line = "''CLASSIFICATION:elephant,0.85,high_confidence''" and now = 100
        and s = initial_state and confidence = "Finite (85 / 100)"]
      observe_never_raises [where py_strip = id and py_float = float_of_example
        and line = "''CLASSIFICATION:elephant''" and now = 100 and s = initial_state]
      observe_never_raises [where py_strip = id and py_float = float_of_example
        and line = "''CLASSIFICATION:elephant,nan''" and now = 100 and s = initial_state
        and confidence = NaN]
    by (simp add: split_examples spec_high_def)
qed

subsection \<open>The four transitions (claims C1 to C4)\<close>

text \<open>
  The spec's state has the tier alone; the source keeps the tier and a lock flag. The
  claims about "every state" are stated for the states in which the two agree, which are
  all the states a session reaches (claim C9 below).
\<close>

text \<open>
  Claim C1 as stated fails: inside the dwell window an observation of another non-NONE
  tier is not ignored. HIGH is set at time 100 and locked until 105; a MEDIUM observation
  at 101 changes the tier, moves the lock and is a transition.
\<close>

theorem debounce_within_dwell_counterexample:
  "tier (spec_high 100 initial_state) \<noteq> no_elephant \<and>
   101 < locked_until (spec_high 100 initial_state) \<and>
   tier (fst (observe ''elephant'' (Finite (35 / 100)) 101 (spec_high 100 initial_state)))
     \<noteq> tier (spec_high 100 initial_state) \<and>
   locked_until (fst (observe ''elephant'' (Finite (35 / 100)) 101 (spec_high 100 initial_state)))
     \<noteq> locked_until (spec_high 100 initial_state) \<and>
   snd (observe ''elephant'' (Finite (35 / 100)) 101 (spec_high 100 initial_state))"
  by (simp add: spec_high_def observe_defs new_detection_state_def initial_state_def Let_def)

text \<open>
  Claim C1, amended: in the simple and in the advanced GUI, for every state with a
  non-NONE tier and every observation arriving inside the dwell window
  (\<open>now < locked_until\<close>) whose candidate tier is NONE or the current tier, \<open>observe\<close>
  leaves the tier, \<open>active_since\<close>, \<open>locked_until\<close>, the lock flag, the label and the
  detection counter unchanged and returns \<open>transitioned = False\<close>. The clock values are
  those for which the source's binary64 difference \<open>now - start\<close> is exact: the episode
  started at a clock value of at least the dwell duration and not after \<open>now\<close>. In
  particular, after a HIGH observation at \<open>t0 \<ge> 5\<close> from a NONE state with the default
  dwell, a negative observation of confidence 0.1 at \<open>t0 + 2\<close> leaves HIGH and is no
  transition.
\<close>

theorem debounce_within_dwell:
  "(tier_consistent s \<and> tier s \<noteq> no_elephant \<and> now < locked_until s \<and>
    detection_timer_duration s \<le> active_since s \<and> active_since s \<le> now \<and>
    (new_detection_state label confidence = no_elephant \<or>
     new_detection_state label confidence = tier s) \<longrightarrow>
      tier (fst (observe label confidence now s)) = tier s \<and>
      active_since (fst (observe label confidence now s)) = active_since s \<and>
      locked_until (fst (observe label confidence now s)) = locked_until s \<and>
      detection_locked (fst (observe label confidence now s)) \<and>
      detection_label (fst (observe label confidence now s)) = detection_label s \<and>
      \<not> snd (observe label confidence now s)) \<and>
   (tier_consistent (shared a) \<and> tier (shared a) \<noteq> no_elephant \<and>
    now < locked_until (shared a) \<and>
    detection_timer_duration a \<le> active_since (shared a) \<and> active_since (shared a) \<le> now \<and>
    (new_detection_state_advanced label confidence = no_elephant \<or>
     new_detection_state_advanced label confidence = tier (shared a)) \<longrightarrow>
      tier (shared (fst (observe_advanced label confidence now a))) = tier (shared a) \<and>
      active_since (shared (fst (observe_advanced label confidence now a)))
        = active_since (shared a) \<and>
      locked_until (shared (fst (observe_advanced label confidence now a)))
        = locked_until (shared a) \<and>
      detection_locked (fst (observe_advanced label confidence now a)) \<and>
      detection_label (fst (observe_advanced label confidence now a)) = detection_label a \<and>
      elephant_detections (fst (observe_advanced label confidence now a))
        = elephant_detections a \<and>
      \<not> snd (observe_advanced label confidence now a)) \<and>
   (tier s0 = no_elephant \<and> detection_timer_duration s0 = 5 \<and> 5 \<le> t0 \<and>
    negative \<noteq> ''elephant'' \<longrightarrow>
      tier (fst (observe negative (Finite (1 / 10)) (t0 + 2) (spec_high t0 s0))) = elephant_high \<and>
      \<not> snd (observe negative (Finite (1 / 10)) (t0 + 2) (spec_high t0 s0)))"
proof (intro conjI impI)
  assume h: "tier s0 = no_elephant \<and> detection_timer_duration s0 = 5 \<and> 5 \<le> t0 \<and>
    negative \<noteq> ''elephant''"
  then have n: "new_detection_state negative (Finite (1 / 10)) = no_elephant"
    by (simp add: negative_label)
  from h have "tier s0 = no_elephant" by simp
  from spec_high_state [OF this, of t0] h n
  show "tier (fst (observe negative (Finite (1 / 10)) (t0 + 2) (spec_high t0 s0))) = elephant_high"
    and "\<not> snd (observe negative (Finite (1 / 10)) (t0 + 2) (spec_high t0 s0))"
    by (simp_all add: observe_defs Let_def)
qed (auto simp: observe_defs observe_advanced_defs Let_def)

text \<open>HIGH set at 100 in either GUI; a negative observation at 102 changes nothing.\<close>

theorem debounce_within_dwell_witness:
  "tier_consistent (spec_high 100 initial_state) \<and>
   tier (spec_high 100 initial_state) \<noteq> no_elephant \<and>
   102 < locked_until (spec_high 100 initial_state) \<and>
   detection_timer_duration (spec_high 100 initial_state)
     \<le> active_since (spec_high 100 initial_state) \<and>
   active_since (spec_high 100 initial_state) \<le> 102 \<and>
   new_detection_state ''not_elephant'' (Finite (1 / 10)) = no_elephant \<and>
   tier (fst (observe ''not_elephant'' (Finite (1 / 10)) 102 (spec_high 100 initial_state)))
     = elephant_high \<and>
   locked_until (fst (observe ''not_elephant'' (Finite (1 / 10)) 102 (spec_high 100 initial_state)))
     = 105 \<and>
   \<not> snd (observe ''not_elephant'' (Finite (1 / 10)) 102 (spec_high 100 initial_state)) \<and>
   tier (shared (fst (observe_advanced ''not_elephant'' (Finite (1 / 10)) 102
     (spec_high_advanced 100 initial_state_advanced)))) = elephant_high \<and>
   locked_until (shared (fst (observe_advanced ''not_elephant'' (Finite (1 / 10)) 102
     (spec_high_advanced 100 initial_state_advanced)))) = 105 \<and>
   \<not> snd (observe_advanced ''not_elephant'' (Finite (1 / 10)) 102
     (spec_high_advanced 100 initial_state_advanced))"
proof -
  note s = spec_high_initial
  note a = spec_high_advanced_initial
  have h: "tier_consistent (spec_high 100 initial_state) \<and>
     tier (spec_high 100 initial_state) \<noteq> no_elephant \<and>
     102 < locked_until (spec_high 100 initial_state) \<and>
     detection_timer_duration (spec_high 100 initial_state)
       \<le> active_since (spec_high 100 initial_state) \<and>
     active_since (spec_high 100 initial_state) \<le> 102 \<and>
     (new_detection_state ''not_elephant'' (Finite (1 / 10)) = no_elephant \<or>
      new_detection_state ''not_elephant'' (Finite (1 / 10)) = tier (spec_high 100 initial_state))"
    using s by (simp add: observe_defs new_detection_state_def)
  have ha: "tier_consistent (shared (spec_high_advanced 100 initial_state_advanced)) \<and>
     tier (shared (spec_high_advanced 100 initial_state_advanced)) \<noteq> no_elephant \<and>
     102 < locked_until (shared (spec_high_advanced 100 initial_state_advanced)) \<and>
     detection_timer_duration (spec_high_advanced 100 initial_state_advanced)
       \<le> active_since (shared (spec_high_advanced 100 initial_state_advanced)) \<and>
     active_since (shared (spec_high_advanced 100 initial_state_advanced)) \<le> 102 \<and>
     (new_detection_state_advanced ''not_elephant'' (Finite (1 / 10)) = no_elephant \<or>
      new_detection_state_advanced ''not_elephant'' (Finite (1 / 10))
        = tier (shared (spec_high_advanced 100 initial_state_advanced)))"
    using a by (simp add: shared_fields new_detection_state_advanced_def)
  have h0: "tier initial_state = no_elephant \<and> detection_timer_duration initial_state = 5 \<and>
     (5 :: real) \<le> 100 \<and> ''not_elephant'' \<noteq> ''elephant''"
    by (simp add: tier_def initial_state_def)
  show ?thesis
    using h ha h0 s a
      debounce_within_dwell [where s = "spec_high 100 initial_state" and now = 102
        and label = "''not_elephant''" and confidence = "Finite (1 / 10)"
        and a = "spec_high_advanced 100 initial_state_advanced"
        and ?s0.0 = initial_state and negative = "''not_elephant''" and ?t0.0 = 100]
    by (simp add: observe_defs new_detection_state_def new_detection_state_advanced_def
        shared_fields)
qed

text \<open>
  Claim C2: for every state with a non-NONE tier, an observation with candidate tier NONE
  arriving at \<open>now \<ge> locked_until\<close> sets the tier to NONE and is a transition. In
  particular, after a HIGH observation at \<open>t0\<close>, a negative observation of confidence
  0.1 at \<open>t0 + 5.1\<close> yields NONE and \<open>transitioned = True\<close>.
\<close>

theorem release_after_dwell:
  "(tier_consistent s \<and> tier s \<noteq> no_elephant \<and> locked_until s \<le> now \<and>
    new_detection_state label confidence = no_elephant \<longrightarrow>
      tier (fst (observe label confidence now s)) = no_elephant \<and>
      snd (observe label confidence now s)) \<and>
   (tier s0 = no_elephant \<and> detection_timer_duration s0 = 5 \<and> negative \<noteq> ''elephant'' \<longrightarrow>
      tier (spec_high t0 s0) = elephant_high \<and>
      tier (fst (observe negative (Finite (1 / 10)) (t0 + 51 / 10) (spec_high t0 s0)))
        = no_elephant \<and>
      snd (observe negative (Finite (1 / 10)) (t0 + 51 / 10) (spec_high t0 s0)))"
proof (intro conjI impI)
  assume h: "tier s0 = no_elephant \<and> detection_timer_duration s0 = 5 \<and> negative \<noteq> ''elephant''"
  then have n: "new_detection_state negative (Finite (1 / 10)) = no_elephant"
    by (simp add: negative_label)
  from h have "tier s0 = no_elephant" by simp
  from spec_high_state [OF this, of t0] h n
  show "tier (spec_high t0 s0) = elephant_high"
    and "tier (fst (observe negative (Finite (1 / 10)) (t0 + 51 / 10) (spec_high t0 s0)))
        = no_elephant"
    and "snd (observe negative (Finite (1 / 10)) (t0 + 51 / 10) (spec_high t0 s0))"
    by (simp_all add: observe_defs Let_def)
qed (auto simp: observe_defs Let_def)

text \<open>HIGH set at 100 and locked until 105; a negative observation at 106 releases it.\<close>

theorem release_after_dwell_witness:
  "tier_consistent (spec_high 100 initial_state) \<and>
   tier (spec_high 100 initial_state) \<noteq> no_elephant \<and>
   locked_until (spec_high 100 initial_state) \<le> 106 \<and>
   new_detection_state ''not_elephant'' (Finite (1 / 10)) = no_elephant \<and>
   tier (fst (observe ''not_elephant'' (Finite (1 / 10)) 106 (spec_high 100 initial_state)))
     = no_elephant \<and>
   snd (observe ''not_elephant'' (Finite (1 / 10)) 106 (spec_high 100 initial_state))"
proof -
  note s = spec_high_initial
  have h: "tier_consistent (spec_high 100 initial_state) \<and>
     tier (spec_high 100 initial_state) \<noteq> no_elephant \<and>
     locked_until (spec_high 100 initial_state) \<le> 106 \<and>
     new_detection_state ''not_elephant'' (Finite (1 / 10)) = no_elephant"
    using s by (simp add: tier_consistent_def tier_def locked_until_def new_detection_state_def)
  have h0: "tier initial_state = no_elephant \<and> detection_timer_duration initial_state = 5 \<and>
     ''not_elephant'' \<noteq> ''elephant''"
    by (simp add: tier_def initial_state_def)
  show ?thesis
    using h h0
      release_after_dwell [where s = "spec_high 100 initial_state" and now = 106
        and label = "''not_elephant''" and confidence = "Finite (1 / 10)"
        and ?s0.0 = initial_state and negative = "''not_elephant''" and ?t0.0 = 100]
    by simp
qed

text \<open>
  Claim C3: in the simple and in the advanced GUI, for every state, an observation whose
  candidate tier is non-NONE, when the current tier is NONE or differs from the
  candidate, sets the tier to the candidate, \<open>active_since = now\<close> and
  \<open>locked_until = now + dwell\<close>, and is a transition, whether or not the previous window
  has elapsed; the advanced GUI also shows the tier's text and counts the detection when
  the tier is HIGH. In particular HIGH at \<open>t0\<close> locks until \<open>t0 + 5\<close>, and a confidence
  of 0.35 at \<open>t0 + 1\<close> then yields MEDIUM, a transition, and a lock until \<open>t0 + 6\<close>.
\<close>

theorem immediate_escalation:
  "(new_detection_state label confidence \<noteq> no_elephant \<and>
    (tier s = no_elephant \<or> new_detection_state label confidence \<noteq> tier s) \<longrightarrow>
      tier (fst (observe label confidence now s)) = new_detection_state label confidence \<and>
      active_since (fst (observe label confidence now s)) = now \<and>
      locked_until (fst (observe label confidence now s)) = now + detection_timer_duration s \<and>
      detection_locked (fst (observe label confidence now s)) \<and>
      snd (observe label confidence now s)) \<and>
   (new_detection_state_advanced label confidence \<noteq> no_elephant \<and>
    (tier (shared a) = no_elephant \<or>
     new_detection_state_advanced label confidence \<noteq> tier (shared a)) \<longrightarrow>
      tier (shared (fst (observe_advanced label confidence now a)))
        = new_detection_state_advanced label confidence \<and>
      active_since (shared (fst (observe_advanced label confidence now a))) = now \<and>
      locked_until (shared (fst (observe_advanced label confidence now a)))
        = now + detection_timer_duration a \<and>
      detection_locked (fst (observe_advanced label confidence now a)) \<and>
      detection_label (fst (observe_advanced label confidence now a))
        = label_of (new_detection_state_advanced label confidence) \<and>
      elephant_detections (fst (observe_advanced label confidence now a))
        = (if new_detection_state_advanced label confidence = elephant_high
           then elephant_detections a + 1 else elephant_detections a) \<and>
      snd (observe_advanced label confidence now a)) \<and>
   (tier s0 = no_elephant \<and> detection_timer_duration s0 = 5 \<longrightarrow>
      tier (spec_high t0 s0) = elephant_high \<and>
      snd (observe ''elephant'' (Finite (85 / 100)) t0 s0) \<and>
      locked_until (spec_high t0 s0) = t0 + 5 \<and>
      tier (fst (observe ''elephant'' (Finite (35 / 100)) (t0 + 1) (spec_high t0 s0)))
        = elephant_medium \<and>
      snd (observe ''elephant'' (Finite (35 / 100)) (t0 + 1) (spec_high t0 s0)) \<and>
      locked_until (fst (observe ''elephant'' (Finite (35 / 100)) (t0 + 1) (spec_high t0 s0)))
        = t0 + 6)"
proof (intro conjI impI)
  assume h: "tier s0 = no_elephant \<and> detection_timer_duration s0 = 5"
  from h have t: "tier s0 = no_elephant" by simp
  from spec_high_state [OF t, of t0] h
  show "tier (spec_high t0 s0) = elephant_high"
    and "locked_until (spec_high t0 s0) = t0 + 5"
    and "tier (fst (observe ''elephant'' (Finite (35 / 100)) (t0 + 1) (spec_high t0 s0)))
        = elephant_medium"
    and "snd (observe ''elephant'' (Finite (35 / 100)) (t0 + 1) (spec_high t0 s0))"
    and "locked_until (fst (observe ''elephant'' (Finite (35 / 100)) (t0 + 1) (spec_high t0 s0)))
        = t0 + 6"
    by (simp_all add: observe_defs new_detection_state_def Let_def)
  from h show "snd (observe ''elephant'' (Finite (85 / 100)) t0 s0)"
    by (simp add: observe_defs new_detection_state_def Let_def)
next
  assume "new_detection_state_advanced label confidence \<noteq> no_elephant \<and>
    (tier (shared a) = no_elephant \<or>
     new_detection_state_advanced label confidence \<noteq> tier (shared a))"
  then show "detection_label (fst (observe_advanced label confidence now a))
        = label_of (new_detection_state_advanced label confidence)"
    by (cases "new_detection_state label confidence")
      (auto simp: observe_advanced_defs Let_def)
qed (auto simp: observe_defs observe_advanced_defs Let_def)

text \<open>
  HIGH set at 100 in either GUI; MEDIUM at 101, inside the window, takes over and locks
  until 106.
\<close>

theorem immediate_escalation_witness:
  "new_detection_state ''elephant'' (Finite (35 / 100)) \<noteq> no_elephant \<and>
   new_detection_state ''elephant'' (Finite (35 / 100)) \<noteq> tier (spec_high 100 initial_state) \<and>
   101 < locked_until (spec_high 100 initial_state) \<and>
   tier (fst (observe ''elephant'' (Finite (35 / 100)) 101 (spec_high 100 initial_state)))
     = elephant_medium \<and>
   locked_until (fst (observe ''elephant'' (Finite (35 / 100)) 101 (spec_high 100 initial_state)))
     = 106 \<and>
   snd (observe ''elephant'' (Finite (35 / 100)) 101 (spec_high 100 initial_state)) \<and>
   new_detection_state_advanced ''elephant'' (Finite (35 / 100))
     \<noteq> tier (shared (spec_high_advanced 100 initial_state_advanced)) \<and>
   tier (shared (fst (observe_advanced ''elephant'' (Finite (35 / 100)) 101
     (spec_high_advanced 100 initial_state_advanced)))) = elephant_medium \<and>
   locked_until (shared (fst (observe_advanced ''elephant'' (Finite (35 / 100)) 101
     (spec_high_advanced 100 initial_state_advanced)))) = 106 \<and>
   elephant_detections (fst (observe_advanced ''elephant'' (Finite (35 / 100)) 101
     (spec_high_advanced 100 initial_state_advanced))) = 1 \<and>
   snd (observe_advanced ''elephant'' (Finite (35 / 100)) 101
     (spec_high_advanced 100 initial_state_advanced))"
proof -
  note s = spec_high_initial
  note a = spec_high_advanced_initial
  have m: "new_detection_state ''elephant'' (Finite (35 / 100)) = elephant_medium"
    and ma: "new_detection_state_advanced ''elephant'' (Finite (35 / 100)) = elephant_medium"
    by (simp_all add: new_detection_state_def new_detection_state_advanced_def)
  have h: "new_detection_state ''elephant'' (Finite (35 / 100)) \<noteq> no_elephant \<and>
     (tier (spec_high 100 initial_state) = no_elephant \<or>
      new_detection_state ''elephant'' (Finite (35 / 100)) \<noteq> tier (spec_high 100 initial_state))"
    using s m by (simp add: tier_def)
  have ha: "new_detection_state_advanced ''elephant'' (Finite (35 / 100)) \<noteq> no_elephant \<and>
     (tier (shared (spec_high_advanced 100 initial_state_advanced)) = no_elephant \<or>
      new_detection_state_advanced ''elephant'' (Finite (35 / 100))
        \<noteq> tier (shared (spec_high_advanced 100 initial_state_advanced)))"
    using a ma by (simp add: shared_fields)
  have h0: "tier initial_state = no_elephant \<and> detection_timer_duration initial_state = 5"
    by (simp add: tier_def initial_state_def)
  show ?thesis
    using h ha h0 s a m ma
      immediate_escalation [where label = "''elephant''" and confidence = "Finite (35 / 100)"
        and s = "spec_high 100 initial_state" and now = 101
        and a = "spec_high_advanced 100 initial_state_advanced"
        and ?s0.0 = initial_state and ?t0.0 = 100]
    by (simp add: tier_def locked_until_def shared_fields)
qed

text \<open>
  Claim C4: for every state with a non-NONE tier, an observation of the same tier arriving
  at \<open>now \<ge> locked_until\<close> keeps the tier, restarts the window
  (\<open>active_since = now\<close>, \<open>locked_until = now + dwell\<close>) and is no transition. In
  particular HIGH at \<open>t0\<close> and HIGH again at \<open>t0 + 5.1\<close> yield HIGH locked until
  \<open>t0 + 10.1\<close>.
\<close>

theorem sustained_relock:
  "(tier_consistent s \<and> tier s \<noteq> no_elephant \<and> locked_until s \<le> now \<and>
    new_detection_state label confidence = tier s \<longrightarrow>
      tier (fst (observe label confidence now s)) = tier s \<and>
      active_since (fst (observe label confidence now s)) = now \<and>
      locked_until (fst (observe label confidence now s)) = now + detection_timer_duration s \<and>
      detection_locked (fst (observe label confidence now s)) \<and>
      \<not> snd (observe label confidence now s)) \<and>
   (tier s0 = no_elephant \<and> detection_timer_duration s0 = 5 \<longrightarrow>
      tier (fst (observe ''elephant'' (Finite (85 / 100)) (t0 + 51 / 10) (spec_high t0 s0)))
        = elephant_high \<and>
      locked_until (fst (observe ''elephant'' (Finite (85 / 100)) (t0 + 51 / 10)
        (spec_high t0 s0))) = t0 + 101 / 10 \<and>
      \<not> snd (observe ''elephant'' (Finite (85 / 100)) (t0 + 51 / 10) (spec_high t0 s0)))"
proof (intro conjI impI)
  assume h: "tier s0 = no_elephant \<and> detection_timer_duration s0 = 5"
  from h have t: "tier s0 = no_elephant" by simp
  from spec_high_state [OF t, of t0] h
  show "tier (fst (observe ''elephant'' (Finite (85 / 100)) (t0 + 51 / 10) (spec_high t0 s0)))
        = elephant_high"
    and "locked_until (fst (observe ''elephant'' (Finite (85 / 100)) (t0 + 51 / 10)
        (spec_high t0 s0))) = t0 + 101 / 10"
    and "\<not> snd (observe ''elephant'' (Finite (85 / 100)) (t0 + 51 / 10) (spec_high t0 s0))"
    by (simp_all add: observe_defs new_detection_state_def Let_def)
qed (auto simp: observe_defs Let_def)

text \<open>HIGH set at 100 and locked until 105; HIGH again at 106 locks until 111.\<close>

theorem sustained_relock_witness:
  "tier_consistent (spec_high 100 initial_state) \<and>
   tier (spec_high 100 initial_state) \<noteq> no_elephant \<and>
   locked_until (spec_high 100 initial_state) \<le> 106 \<and>
   new_detection_state ''elephant'' (Finite (9 / 10)) = tier (spec_high 100 initial_state) \<and>
   tier (fst (observe ''elephant'' (Finite (9 / 10)) 106 (spec_high 100 initial_state)))
     = elephant_high \<and>
   locked_until (fst (observe ''elephant'' (Finite (9 / 10)) 106 (spec_high 100 initial_state)))
     = 111 \<and>
   \<not> snd (observe ''elephant'' (Finite (9 / 10)) 106 (spec_high 100 initial_state))"
proof -
  note s = spec_high_initial
  have m: "new_detection_state ''elephant'' (Finite (9 / 10)) = elephant_high"
    by (simp add: new_detection_state_def)
  have h: "tier_consistent (spec_high 100 initial_state) \<and>
     tier (spec_high 100 initial_state) \<noteq> no_elephant \<and>
     locked_until (spec_high 100 initial_state) \<le> 106 \<and>
     new_detection_state ''elephant'' (Finite (9 / 10)) = tier (spec_high 100 initial_state)"
    using s m by (simp add: tier_consistent_def tier_def locked_until_def)
  have h0: "tier initial_state = no_elephant \<and> detection_timer_duration initial_state = 5"
    by (simp add: tier_def initial_state_def)
  show ?thesis
    using h h0 s m
      sustained_relock [where s = "spec_high 100 initial_state" and now = 106
        and label = "''elephant''" and confidence = "Finite (9 / 10)"
        and ?s0.0 = initial_state and ?t0.0 = 100]
    by (simp add: tier_def locked_until_def)
qed

subsection \<open>Invariants of a session (claims C9 and C5)\<close>

lemma update_consistent:
  "tier_consistent s \<Longrightarrow> tier_consistent (update_detection_display now s)"
  by (auto simp: update_detection_display_def tier_consistent_def Let_def)

lemma inputs_consistent:
  "tier_consistent s \<Longrightarrow>
   tier_consistent (s\<lparr>current_classification := l, current_confidence := c\<rparr>)"
  by (simp add: tier_consistent_def)

lemma step_consistent: "tier_consistent s \<Longrightarrow> tier_consistent (step e now s)"
  by (cases e) (simp_all add: observe_def tick_def Let_def update_consistent inputs_consistent)

lemma run_consistent: "tier_consistent s \<Longrightarrow> tier_consistent (run evs s)"
  by (induction evs arbitrary: s) (auto simp: step_consistent)

text \<open>
  Claim C9: from the initial state, after every completed call of the update (on a parsed
  classification or on the periodic tick, at any times), the lock flag is set if and only
  if the displayed tier is non-NONE.
\<close>

theorem lock_flag_agrees_with_tier:
  "detection_locked (run evs initial_state) =
     (last_detection_state (run evs initial_state) \<noteq> no_elephant)"
proof -
  have "tier_consistent initial_state"
    by (simp add: tier_consistent_def initial_state_def)
  then have "tier_consistent (run evs initial_state)" by (rule run_consistent)
  then show ?thesis by (simp add: tier_consistent_def)
qed

lemma update_duration:
  "detection_timer_duration (update_detection_display now s) = detection_timer_duration s"
  by (simp add: update_detection_display_def Let_def)

lemma step_duration: "detection_timer_duration (step e now s) = detection_timer_duration s"
  by (cases e) (simp_all add: observe_def tick_def Let_def update_duration)

lemma run_duration: "detection_timer_duration (run evs s) = detection_timer_duration s"
  by (induction evs arbitrary: s) (auto simp: step_duration)

text \<open>The timer start is either set to now, or kept; when kept, the tier is kept or NONE.\<close>

lemma update_start:
  "detection_timer_start (update_detection_display now s) = now \<or>
   (detection_timer_start (update_detection_display now s) = detection_timer_start s \<and>
    (last_detection_state (update_detection_display now s) = no_elephant \<or>
     last_detection_state (update_detection_display now s) = last_detection_state s))"
  by (simp add: update_detection_display_def Let_def)

lemma step_start:
  "detection_timer_start (step e now s) = now \<or>
   (detection_timer_start (step e now s) = detection_timer_start s \<and>
    (last_detection_state (step e now s) = no_elephant \<or>
     last_detection_state (step e now s) = last_detection_state s))"
proof (cases e)
  case (Classification l c)
  show ?thesis
    using update_start [of now "s\<lparr>current_classification := l, current_confidence := c\<rparr>"]
    by (simp add: Classification observe_def Let_def)
next
  case Tick
  show ?thesis using update_start [of now s] by (simp add: Tick tick_def)
qed

lemma step_started_by:
  "started_by T s \<Longrightarrow> T \<le> now \<Longrightarrow> started_by now (step e now s)"
  using step_start [of e now s] by (auto simp: started_by_def)

lemma run_started_by:
  "started_by T s \<Longrightarrow> sorted (map snd evs) \<Longrightarrow>
   \<forall>t \<in> set (map snd evs). T \<le> t \<and> t \<le> T' \<Longrightarrow> T \<le> T' \<Longrightarrow>
   started_by T' (run evs s)"
proof (induction evs arbitrary: s T)
  case Nil
  then show ?case by (auto simp: started_by_def)
next
  case (Cons a evs)
  obtain e now where a: "a = (e, now)" by (cases a)
  have 1: "started_by now (step e now s)" using Cons.prems a by (auto intro: step_started_by)
  have 2: "sorted (map snd evs)" using Cons.prems by simp
  have 3: "\<forall>t \<in> set (map snd evs). now \<le> t \<and> t \<le> T'" using Cons.prems a by auto
  have 4: "now \<le> T'" using Cons.prems a by auto
  show ?case using Cons.IH [OF 1 2 3 4] by (simp add: a)
qed

lemma reachable_started_by:
  assumes "sorted (map snd evs)" and "\<forall>t \<in> set (map snd evs). t \<le> now"
  shows "started_by now (run evs initial_state)"
proof (cases evs)
  case Nil
  then show ?thesis by (simp add: started_by_def initial_state_def)
next
  case (Cons a list)
  have "started_by (snd a) initial_state" by (simp add: started_by_def initial_state_def)
  moreover have "\<forall>t \<in> set (map snd evs). snd a \<le> t \<and> t \<le> now"
    using assms Cons by auto
  moreover have "snd a \<le> now" using assms Cons by auto
  ultimately show ?thesis using run_started_by assms(1) by blast
qed

lemma trace_head: "\<exists>rest. trace evs s = s # rest"
  by (cases evs) auto

lemma step_lock_mono:
  assumes "started_by T s" and "T \<le> now"
    and "last_detection_state s \<noteq> no_elephant"
    and "last_detection_state (step e now s) \<noteq> no_elephant"
  shows "locked_until s \<le> locked_until (step e now s)"
  using step_start [of e now s] step_duration [of e now s] assms
  by (auto simp: locked_until_def started_by_def)

lemma trace_lock_sorted:
  "started_by T s \<Longrightarrow> sorted (map snd evs) \<Longrightarrow> \<forall>t \<in> set (map snd evs). T \<le> t \<Longrightarrow>
   \<forall>x \<in> set (trace evs s). last_detection_state x \<noteq> no_elephant \<Longrightarrow>
   sorted (map locked_until (trace evs s))"
proof (induction evs arbitrary: s T)
  case Nil
  then show ?case by simp
next
  case (Cons a evs)
  obtain e now where a: "a = (e, now)" by (cases a)
  let ?s1 = "step e now s"
  obtain rest where r: "trace evs ?s1 = ?s1 # rest" using trace_head by blast
  have T: "T \<le> now" using Cons.prems a by simp
  have 1: "started_by now ?s1" using Cons.prems(1) T by (rule step_started_by)
  have 2: "sorted (map snd evs)" using Cons.prems by simp
  have 3: "\<forall>t \<in> set (map snd evs). now \<le> t" using Cons.prems a by auto
  have 4: "\<forall>x \<in> set (trace evs ?s1). last_detection_state x \<noteq> no_elephant"
    using Cons.prems a by simp
  have ih: "sorted (map locked_until (trace evs ?s1))" using Cons.IH [OF 1 2 3 4] .
  have s0: "last_detection_state s \<noteq> no_elephant" using Cons.prems a by simp
  have s1: "last_detection_state ?s1 \<noteq> no_elephant" using 4 r by simp
  have le: "locked_until s \<le> locked_until ?s1"
    using Cons.prems(1) T s0 s1 by (rule step_lock_mono)
  show ?case using ih le r by (auto simp: a intro: order_trans)
qed

text \<open>
  Claim C5: in a session started in the initial state and handled at non-decreasing
  times, each call (an observation or a tick) at time \<open>now\<close> either leaves
  \<open>locked_until\<close> as it was or sets it to \<open>now + 5\<close>, the dwell duration, which is not
  before \<open>now\<close>; and along every stretch of the session in which the tier stays
  non-NONE the values of \<open>locked_until\<close> never decrease.
\<close>

theorem lock_monotonic:
  assumes "sorted (map snd (evs @ (e, now) # later))"
  shows "(locked_until (step e now (run evs initial_state)) =
            locked_until (run evs initial_state) \<or>
          locked_until (step e now (run evs initial_state)) = now + 5 \<and>
          now \<le> locked_until (step e now (run evs initial_state))) \<and>
         ((\<forall>x \<in> set (trace ((e, now) # later) (run evs initial_state)). tier x \<noteq> no_elephant) \<longrightarrow>
            sorted (map locked_until (trace ((e, now) # later) (run evs initial_state))))"
proof -
  let ?s = "run evs initial_state"
  have a1: "sorted (map snd evs)" and a2: "\<forall>t \<in> set (map snd evs). t \<le> now"
    and a3: "sorted (map snd ((e, now) # later))"
    using assms by (auto simp: sorted_append)
  have d: "detection_timer_duration ?s = 5" by (simp add: run_duration initial_state_def)
  have d': "detection_timer_duration (step e now ?s) = 5" by (simp add: step_duration d)
  have sb: "started_by now ?s" using a1 a2 by (rule reachable_started_by)
  have first: "locked_until (step e now ?s) = locked_until ?s \<or>
          locked_until (step e now ?s) = now + 5 \<and> now \<le> locked_until (step e now ?s)"
    using step_start [of e now ?s] d d' by (auto simp: locked_until_def)
  have second: "(\<forall>x \<in> set (trace ((e, now) # later) ?s). tier x \<noteq> no_elephant) \<longrightarrow>
            sorted (map locked_until (trace ((e, now) # later) ?s))"
  proof
    assume "\<forall>x \<in> set (trace ((e, now) # later) ?s). tier x \<noteq> no_elephant"
    then have n: "\<forall>x \<in> set (trace ((e, now) # later) ?s). last_detection_state x \<noteq> no_elephant"
      by (simp add: tier_def)
    have b: "\<forall>t \<in> set (map snd ((e, now) # later)). now \<le> t" using a3 by auto
    show "sorted (map locked_until (trace ((e, now) # later) ?s))"
      using sb a3 b n by (rule trace_lock_sorted)
  qed
  show ?thesis using first second by blast
qed

text \<open>
  HIGH at 100, MEDIUM at 101 and a tick at 106 that restarts the window: the lock runs
  until 105, 106 and 111.
\<close>

theorem lock_monotonic_witness:
  "sorted [100, 101, 106 :: real] \<and>
   map locked_until (trace [(Classification ''elephant'' (Finite (35 / 100)), 101), (Tick, 106)]
      (run [(Classification ''elephant'' (Finite (85 / 100)), 100)] initial_state))
     = [105, 106, 111] \<and>
   sorted (map locked_until
     (trace [(Classification ''elephant'' (Finite (35 / 100)), 101), (Tick, 106)]
      (run [(Classification ''elephant'' (Finite (85 / 100)), 100)] initial_state)))"
proof -
  have h: "sorted (map snd ([(Classification ''elephant'' (Finite (85 / 100)), 100)] @
       (Classification ''elephant'' (Finite (35 / 100)), 101) # [(Tick, 106 :: real)]))"
    by simp
  have v: "map locked_until (trace [(Classification ''elephant'' (Finite (35 / 100)), 101), (Tick, 106)]
      (run [(Classification ''elephant'' (Finite (85 / 100)), 100)] initial_state))
     = [105, 106, 111]"
    by (simp add: observe_defs tick_def new_detection_state_def initial_state_def Let_def)
  have t: "map tier (trace [(Classification ''elephant'' (Finite (35 / 100)), 101), (Tick, 106)]
      (run [(Classification ''elephant'' (Finite (85 / 100)), 100)] initial_state))
     = [elephant_high, elephant_medium, elephant_medium]"
    by (simp add: observe_defs tick_def new_detection_state_def initial_state_def Let_def)
  show ?thesis using lock_monotonic [OF h] v t by simp
qed

subsection \<open>The no-op (claim C7)\<close>

lemma observe_noop:
  "new_detection_state l c = no_elephant \<Longrightarrow> last_detection_state s = no_elephant \<Longrightarrow>
   last_detection_state (fst (observe l c now s)) = no_elephant \<and>
   detection_timer_start (fst (observe l c now s)) = detection_timer_start s \<and>
   detection_timer_duration (fst (observe l c now s)) = detection_timer_duration s \<and>
   \<not> snd (observe l c now s)"
  by (simp add: observe_def update_detection_display_def Let_def)

lemma observe_seq_noop:
  "last_detection_state s = no_elephant \<Longrightarrow>
   \<forall>ob \<in> set obs. new_detection_state (fst ob) (fst (snd ob)) = no_elephant \<Longrightarrow>
   last_detection_state (fst (observe_seq obs s)) = no_elephant \<and>
   detection_timer_start (fst (observe_seq obs s)) = detection_timer_start s \<and>
   detection_timer_duration (fst (observe_seq obs s)) = detection_timer_duration s \<and>
   snd (observe_seq obs s) = replicate (length obs) False"
proof (induction obs arbitrary: s)
  case Nil
  then show ?case by simp
next
  case (Cons a obs)
  obtain l c t where a: "a = (l, c, t)" by (cases a)
  let ?s1 = "fst (observe l c t s)"
  have n: "new_detection_state l c = no_elephant" using Cons.prems a by simp
  note o = observe_noop [OF n Cons.prems(1), of t]
  have r: "\<forall>ob \<in> set obs. new_detection_state (fst ob) (fst (snd ob)) = no_elephant"
    using Cons.prems by simp
  from o have "last_detection_state ?s1 = no_elephant" by simp
  from Cons.IH [OF this r] o show ?case by (simp add: a split_beta Let_def)
qed

text \<open>
  Claim C7: from every state with tier NONE, any sequence of observations whose candidate
  tier is NONE, and in particular any number of repetitions of
  \<^verbatim>\<open>observe("negative", 0.0, t)\<close>, returns \<open>transitioned = False\<close> at every call and
  leaves the tier NONE and \<open>active_since\<close> and \<open>locked_until\<close> as they were.
\<close>

theorem noop_idempotent:
  "(tier s = no_elephant \<and>
    (\<forall>ob \<in> set obs. new_detection_state (fst ob) (fst (snd ob)) = no_elephant) \<longrightarrow>
      tier (fst (observe_seq obs s)) = no_elephant \<and>
      active_since (fst (observe_seq obs s)) = active_since s \<and>
      locked_until (fst (observe_seq obs s)) = locked_until s \<and>
      snd (observe_seq obs s) = replicate (length obs) False) \<and>
   (tier s = no_elephant \<and> negative \<noteq> ''elephant'' \<longrightarrow>
      tier (fst (observe_seq (replicate n (negative, Finite 0, t)) s)) = no_elephant \<and>
      active_since (fst (observe_seq (replicate n (negative, Finite 0, t)) s)) = active_since s \<and>
      locked_until (fst (observe_seq (replicate n (negative, Finite 0, t)) s)) = locked_until s \<and>
      snd (observe_seq (replicate n (negative, Finite 0, t)) s) = replicate n False)"
proof (intro conjI impI)
  assume h: "tier s = no_elephant \<and>
    (\<forall>ob \<in> set obs. new_detection_state (fst ob) (fst (snd ob)) = no_elephant)"
  then have 1: "last_detection_state s = no_elephant"
    and 2: "\<forall>ob \<in> set obs. new_detection_state (fst ob) (fst (snd ob)) = no_elephant"
    by (simp_all add: tier_def)
  from observe_seq_noop [OF 1 2]
  show "tier (fst (observe_seq obs s)) = no_elephant"
    and "active_since (fst (observe_seq obs s)) = active_since s"
    and "locked_until (fst (observe_seq obs s)) = locked_until s"
    and "snd (observe_seq obs s) = replicate (length obs) False"
    by (simp_all add: tier_def active_since_def locked_until_def)
next
  assume h: "tier s = no_elephant \<and> negative \<noteq> ''elephant''"
  let ?obs = "replicate n (negative, Finite 0, t)"
  from h have 1: "last_detection_state s = no_elephant" by (simp add: tier_def)
  from h have 2: "\<forall>ob \<in> set ?obs. new_detection_state (fst ob) (fst (snd ob)) = no_elephant"
    by (simp add: negative_label)
  from observe_seq_noop [OF 1 2]
  show "tier (fst (observe_seq ?obs s)) = no_elephant"
    and "active_since (fst (observe_seq ?obs s)) = active_since s"
    and "locked_until (fst (observe_seq ?obs s)) = locked_until s"
    and "snd (observe_seq ?obs s) = replicate n False"
    by (simp_all add: tier_def active_since_def locked_until_def)
qed

text \<open>Three negative observations from the initial state change the label text only.\<close>

theorem noop_idempotent_witness:
  "tier initial_state = no_elephant \<and>
   observe_seq [(''not_elephant'', Finite 0, 7), (''not_elephant'', Finite 0, 7),
       (''not_elephant'', Finite 0, 7)] initial_state
     = (initial_state\<lparr>detection_label := No_Elephant\<rparr>, [False, False, False])"
proof -
  have h: "tier initial_state = no_elephant \<and> ''not_elephant'' \<noteq> ''elephant''"
    by (simp add: tier_def initial_state_def)
  have e: "observe_seq [(''not_elephant'', Finite 0, 7), (''not_elephant'', Finite 0, 7),
       (''not_elephant'', Finite 0, 7)] initial_state
     = (initial_state\<lparr>detection_label := No_Elephant\<rparr>, [False, False, False])"
    by (simp add: observe_defs new_detection_state_def initial_state_def Let_def)
  have o: "\<forall>ob \<in> set [(''not_elephant'', Finite 0, 7 :: real)].
      new_detection_state (fst ob) (fst (snd ob)) = no_elephant"
    by (simp add: new_detection_state_def)
  show ?thesis
    using h e o
      noop_idempotent [where s = initial_state and obs = "[(''not_elephant'', Finite 0, 7)]"
        and negative = "''not_elephant''" and n = 3 and t = 7]
    by simp
qed

end
